theory Spec2Isabelle
  imports Main "HOL-Library.Multiset" "HOL-Library.Sublist"
begin

section \<open>Python errors and numpy arrays\<close>

text \<open>
  Every exception the modelled code can raise is a value. \<open>AssertionError\<close> carries the
  formatted message of the failing \<open>assert False, msg\<close>.
\<close>

datatype py_error =
    ZeroDivisionError
  | NameError string
  | ValueError
  | IndexError
  | KeyError
  | AssertionError string

text \<open>
  A numpy array is its shape together with its elements in row-major (C) order, which is
  the order \<open>reshape\<close> preserves. The element type is left abstract: the arrays hold
  floats, and no modelled operation computes with them.
\<close>

record 'a ndarray =
  shape :: "nat list"
  data :: "'a list"

definition wf_array :: "'a ndarray \<Rightarrow> bool" where
  "wf_array a = (length (data a) = prod_list (shape a))"

definition zeros :: "nat list \<Rightarrow> 'a::zero ndarray" where
  "zeros shp = \<lparr>shape = shp, data = replicate (prod_list shp) 0\<rparr>"

text \<open>
  \<open>a.reshape(shp)\<close>: the same elements under a new shape; raises when the sizes differ.
\<close>

definition reshape :: "'a ndarray \<Rightarrow> nat list \<Rightarrow> py_error + 'a ndarray" where
  "reshape a shp =
     (if prod_list shp = length (data a) then Inr (a\<lparr>shape := shp\<rparr>) else Inl ValueError)"

text \<open>
  Python's slice \<open>start:stop:step\<close> over an axis of length \<open>len\<close>, for the slices the
  code writes: \<open>start\<close> is a loop counter (never negative), \<open>stop\<close> is an integer that
  may be negative (then it counts from the end) or beyond the axis (then it is clamped),
  \<open>step\<close> is positive. The number of selected positions is computed as CPython does.
\<close>

definition adjust_stop :: "nat \<Rightarrow> int \<Rightarrow> nat" where
  "adjust_stop len stop =
     (if stop < 0 then (if stop + int len < 0 then 0 else nat (stop + int len))
      else if int len \<le> stop then len else nat stop)"

definition slice_len :: "nat \<Rightarrow> nat \<Rightarrow> int \<Rightarrow> nat \<Rightarrow> nat" where
  "slice_len len start stop step =
     (let a = min start len; b = adjust_stop len stop
      in if a < b then (b - a - 1) div step + 1 else 0)"

text \<open>
  \<open>img[:, i:stop1:step, j:stop2:step]\<close> on an array of rank 3. A zero step raises
  \<open>ValueError\<close> (slice step cannot be zero).
\<close>

definition slice3 :: "'a ndarray \<Rightarrow> nat \<Rightarrow> int \<Rightarrow> nat \<Rightarrow> int \<Rightarrow> nat \<Rightarrow> py_error + 'a ndarray" where
  "slice3 img i stop1 j stop2 step =
     (if step = 0 then Inl ValueError
      else
        let c = shape img ! 0; h = shape img ! 1; w = shape img ! 2;
            n1 = slice_len h i stop1 step; n2 = slice_len w j stop2 step
        in Inr \<lparr>shape = [c, n1, n2],
                data = concat (map (\<lambda>ch. concat (map (\<lambda>r.
                         map (\<lambda>q. data img ! ((ch * h + (i + r * step)) * w + (j + q * step)))
                           [0..<n2]) [0..<n1])) [0..<c])\<rparr>)"

text \<open>
  \<open>res[:, k, :] = x\<close> for \<open>res\<close> of shape \<open>(c, m, n)\<close> and \<open>x\<close> of shape \<open>(c, n)\<close>.
  In the code \<open>x\<close> always comes out of \<open>reshape(endc, total_pat_num)\<close>, so its shape is
  exactly \<open>(c, n)\<close>; any other shape is answered with the \<open>ValueError\<close> of a failed
  broadcast.
\<close>

definition assign_axis1 :: "'a ndarray \<Rightarrow> nat \<Rightarrow> 'a ndarray \<Rightarrow> py_error + 'a ndarray" where
  "assign_axis1 res k x =
     (let c = shape res ! 0; m = shape res ! 1; n = shape res ! 2 in
      if m \<le> k then Inl IndexError
      else if shape x \<noteq> [c, n] then Inl ValueError
      else Inr (res\<lparr>data :=
             map (\<lambda>idx. if (idx div n) mod m = k
                         then data x ! ((idx div (m * n)) * n + idx mod n)
                         else data res ! idx) [0..<c * m * n]\<rparr>))"

section \<open>Patch extraction: \<open>img_to_patches\<close>\<close>

text \<open>
  The two nested \<open>for\<close> loops over \<open>range(win)\<close>, with the running counter \<open>k\<close> and
  the buffer \<open>res\<close> as the state. \<open>endw\<close> is \<open>img.shape[1]\<close> and \<open>endh\<close> is
  \<open>img.shape[2]\<close>, as in the source.
\<close>

fun inner_loop ::
  "'a ndarray \<Rightarrow> nat \<Rightarrow> nat \<Rightarrow> nat \<Rightarrow> nat \<Rightarrow> nat list \<Rightarrow> nat \<times> 'a ndarray
    \<Rightarrow> py_error + (nat \<times> 'a ndarray)" where
  "inner_loop img win stride total_pat_num i [] (k, res) = Inr (k, res)"
| "inner_loop img win stride total_pat_num i (j # js) (k, res) =
     (let endc = shape img ! 0; endw = shape img ! 1; endh = shape img ! 2 in
      case slice3 img i (int endw - int win + int i + 1) j (int endh - int win + int j + 1) stride of
        Inl e \<Rightarrow> Inl e
      | Inr patch \<Rightarrow>
          (case reshape patch [endc, total_pat_num] of
             Inl e \<Rightarrow> Inl e
           | Inr flat \<Rightarrow>
               (case assign_axis1 res k flat of
                  Inl e \<Rightarrow> Inl e
                | Inr res' \<Rightarrow> inner_loop img win stride total_pat_num i js (k + 1, res'))))"

fun outer_loop ::
  "'a ndarray \<Rightarrow> nat \<Rightarrow> nat \<Rightarrow> nat \<Rightarrow> nat list \<Rightarrow> nat \<times> 'a ndarray
    \<Rightarrow> py_error + (nat \<times> 'a ndarray)" where
  "outer_loop img win stride total_pat_num [] s = Inr s"
| "outer_loop img win stride total_pat_num (i # is) s =
     (case inner_loop img win stride total_pat_num i [0..<win] s of
        Inl e \<Rightarrow> Inl e
      | Inr s' \<Rightarrow> outer_loop img win stride total_pat_num is s')"

text \<open>
  \<open>img_to_patches(img, win, stride)\<close>. The window size and the stride are taken
  non-negative. An array of rank below 3 fails at \<open>img.shape[2]\<close>; the docstring's
  input is a \<open>CxHxW\<close> array, and the theorems below are about arrays of rank 3.
\<close>

definition img_to_patches :: "'a::zero ndarray \<Rightarrow> nat \<Rightarrow> nat \<Rightarrow> py_error + 'a ndarray" where
  "img_to_patches img win stride =
     (if length (shape img) < 3 then Inl IndexError
      else
        let endc = shape img ! 0; endw = shape img ! 1; endh = shape img ! 2 in
        case slice3 img 0 (int endw - int win + 0 + 1) 0 (int endh - int win + 0 + 1) stride of
          Inl e \<Rightarrow> Inl e
        | Inr patch \<Rightarrow>
            (let total_pat_num = shape patch ! 1 * shape patch ! 2;
                 res = zeros [endc, win * win, total_pat_num]
             in case outer_loop img win stride total_pat_num [0..<win] (0, res) of
                  Inl e \<Rightarrow> Inl e
                | Inr (k, res') \<Rightarrow> reshape res' [endc, win, win, total_pat_num]))"

text \<open>\<open>patches[:, :, :, nx]\<close> for \<open>patches\<close> of shape \<open>(c, a, b, n)\<close>.\<close>

definition patch_at :: "'a ndarray \<Rightarrow> nat \<Rightarrow> 'a ndarray" where
  "patch_at patches nx =
     (let c = shape patches ! 0; a = shape patches ! 1; b = shape patches ! 2;
          n = shape patches ! 3
      in \<lparr>shape = [c, a, b], data = map (\<lambda>m. data patches ! (m * n + nx)) [0..<c * a * b]\<rparr>)"

section \<open>The random-access dataset: class \<open>Dataset\<close>\<close>

text \<open>
  An HDF5 file is the list of its datasets, name and array, in the order \<open>h5f.keys()\<close>
  lists them. \<open>h5f[key]\<close> raises \<open>KeyError\<close> for a name the store does not hold.
\<close>

type_synonym 'a h5file = "(string \<times> 'a ndarray) list"

definition h5_getitem :: "'a h5file \<Rightarrow> string \<Rightarrow> py_error + 'a ndarray" where
  "h5_getitem h5f key = (case map_of h5f key of None \<Rightarrow> Inl KeyError | Some d \<Rightarrow> Inr d)"

text \<open>
  \<open>random.shuffle\<close> and \<open>np.random.shuffle\<close> rearrange a sequence in place by a
  permutation the generator draws. The drawn permutation is an input of the model: position
  \<open>k\<close> of the result holds the element that was at position \<open>perm ! k\<close>, and \<open>perm\<close> is a
  rearrangement of \<open>[0..<length xs]\<close>.
\<close>

definition shuffle_with :: "nat list \<Rightarrow> 'b list \<Rightarrow> 'b list" where
  "shuffle_with perm xs = map (\<lambda>k. xs ! k) perm"

text \<open>
  \<open>xs[index]\<close> on a Python list: an index from \<open>-len(xs)\<close> to \<open>-1\<close> counts from the end,
  an index outside \<open>-len(xs) .. len(xs) - 1\<close> raises \<open>IndexError\<close>.
\<close>

definition list_getitem :: "'b list \<Rightarrow> int \<Rightarrow> py_error + 'b" where
  "list_getitem xs index =
     (if 0 \<le> index \<and> index < int (length xs) then Inr (xs ! nat index)
      else if - int (length xs) \<le> index \<and> index < 0 then Inr (xs ! nat (index + int (length xs)))
      else Inl IndexError)"

text \<open>
  A \<open>Dataset\<close> object keeps the path \<open>dbf\<close>, here the file it names, and the key list read
  when it was made. The flags \<open>train\<close> and \<open>gray_mode\<close> are stored and never read.
\<close>

record 'a Dataset =
  dbf :: "'a h5file"
  keys :: "string list"

definition Dataset_init :: "'a h5file \<Rightarrow> bool \<Rightarrow> nat list \<Rightarrow> 'a Dataset" where
  "Dataset_init store shuffle perm =
     \<lparr>dbf = store,
      keys = (if shuffle then shuffle_with perm (map fst store) else map fst store)\<rparr>"

definition Dataset_len :: "'a Dataset \<Rightarrow> nat" where
  "Dataset_len self = length (keys self)"

text \<open>
  \<open>__getitem__\<close>: the key is looked up in the key list first, the array in the store next;
  \<open>torch.Tensor(data)\<close> holds the same values.
\<close>

definition Dataset_getitem :: "'a Dataset \<Rightarrow> int \<Rightarrow> py_error + 'a ndarray" where
  "Dataset_getitem self index =
     (case list_getitem (keys self) index of
        Inl e \<Rightarrow> Inl e
      | Inr key \<Rightarrow> h5_getitem (dbf self) key)"

section \<open>Noise estimation: \<open>estimate_noise\<close>\<close>

datatype Estimator = WIENER | WAVELET

text \<open>
  \<open>method\<close> may be any Python object. One that is no member of \<open>Estimator\<close> is kept as
  the text it prints as, which is all a message could say about it.
\<close>

datatype method_arg = Member Estimator | NotMember string

text \<open>
  The names in \<open>Estimator.__dict__\<close>: the two members, in the order the class body
  defines them, among the names the enum machinery adds, all of which start with an
  underscore. The assertion message lists the names that do not.
\<close>

definition Estimator_dict_keys :: "string list" where
  "Estimator_dict_keys =
     [''_generate_next_value_'', ''__module__'', ''__doc__'', ''_member_names_'',
      ''_member_map_'', ''_member_type_'', ''_value2member_map_'',
      ''WIENER'', ''WAVELET'', ''__new__'']"

definition wavelet_options :: "string list" where
  "wavelet_options = [''BayesShrink'', ''VisuShrink'']"

text \<open>How \<open>str.format\<close> prints a list of strings: \<open>['a', 'b']\<close>.\<close>

fun join_comma :: "string list \<Rightarrow> string" where
  "join_comma [] = []"
| "join_comma [x] = x"
| "join_comma (x # y # ys) = x @ '', '' @ join_comma (y # ys)"

definition py_repr_list :: "string list \<Rightarrow> string" where
  "py_repr_list xs = ''['' @ join_comma (map (\<lambda>s. [CHR 0x27] @ s @ [CHR 0x27]) xs) @ '']''"

definition unknown_estimator_msg :: string where
  "unknown_estimator_msg =
     ''Unknown noise estimator, please specify one of those listed in ''
       @ py_repr_list (filter (\<lambda>i. take 1 i \<noteq> ''_'') Estimator_dict_keys)"

definition unknown_wavelet_msg :: string where
  "unknown_wavelet_msg =
     ''Unknown wavelet method, please specify one of those listed in ''
       @ py_repr_list wavelet_options"

text \<open>
  The functions \<open>estimate_noise\<close> calls in scipy, skimage and numpy are inputs of the
  model; they are taken to return normally. \<open>denoise_wavelet\<close> takes the image and the
  arguments \<open>multichannel\<close>, \<open>convert2ycbcr\<close>, \<open>rescale_sigma\<close> and \<open>method\<close>.
\<close>

record ('a, 's) library =
  wiener :: "'a ndarray \<Rightarrow> nat \<times> nat \<Rightarrow> 'a ndarray"
  denoise_wavelet :: "'a ndarray \<Rightarrow> bool \<Rightarrow> bool \<Rightarrow> bool \<Rightarrow> string \<Rightarrow> 'a ndarray"
  estimate_sigma :: "'a ndarray \<Rightarrow> 's"
  np_sum :: "'a ndarray \<Rightarrow> 'a"
  np_isnan :: "'a \<Rightarrow> bool"

text \<open>
  \<open>image_list\<close> is a tensor or array of rank 4, a Python list of arrays, or anything else.
\<close>

datatype 'a image_list = Tensor "'a ndarray" | PyList "'a ndarray list" | OtherObject

text \<open>\<open>a[i]\<close> for an array of rank at least 1 and \<open>i\<close> within its first axis.\<close>

definition index0 :: "'a ndarray \<Rightarrow> nat \<Rightarrow> 'a ndarray" where
  "index0 a i =
     (let m = prod_list (tl (shape a))
      in \<lparr>shape = tl (shape a), data = take m (drop (i * m) (data a))\<rparr>)"

definition image_at :: "'a image_list \<Rightarrow> nat \<Rightarrow> 'a ndarray" where
  "image_at image_list i =
     (case image_list of Tensor a \<Rightarrow> index0 a i | PyList xs \<Rightarrow> xs ! i | OtherObject \<Rightarrow> \<lparr>shape = [], data = []\<rparr>)"

definition squeeze :: "'a ndarray \<Rightarrow> 'a ndarray" where
  "squeeze a = a\<lparr>shape := filter (\<lambda>d. d \<noteq> 1) (shape a)\<rparr>"

definition expand_dims0 :: "'a ndarray \<Rightarrow> 'a ndarray" where
  "expand_dims0 a = a\<lparr>shape := 1 # shape a\<rparr>"

text \<open>
  \<open>filtered_images[i] = filtered\<close> copies \<open>filtered\<close> into a row of shape \<open>(c, w, h)\<close> by
  numpy's broadcasting: leading axes of length 1 are dropped while the value has more axes
  than the row, missing leading axes count as length 1, and every axis must then have the
  row's length or length 1, in which case it is repeated. Anything else raises
  \<open>ValueError\<close>.
\<close>

fun strip_ones :: "nat \<Rightarrow> nat list \<Rightarrow> nat list" where
  "strip_ones r [] = []"
| "strip_ones r (d # ds) = (if r < length (d # ds) \<and> d = 1 then strip_ones r ds else d # ds)"

fun broadcast_data :: "nat list \<Rightarrow> nat list \<Rightarrow> 'a list \<Rightarrow> 'a list" where
  "broadcast_data (s # ss) (t # ts) d =
     (if s = t
      then concat (map (\<lambda>k. broadcast_data ss ts (take (prod_list ss) (drop (k * prod_list ss) d)))
                     [0..<t])
      else concat (replicate t (broadcast_data ss ts d)))"
| "broadcast_data ss ts d = d"

definition broadcast_to :: "'a ndarray \<Rightarrow> nat list \<Rightarrow> py_error + 'a ndarray" where
  "broadcast_to a tgt =
     (let s1 = strip_ones (length tgt) (shape a) in
      if length tgt < length s1 then Inl ValueError
      else
        let s2 = replicate (length tgt - length s1) 1 @ s1 in
        if list_all2 (\<lambda>s t. s = t \<or> s = 1) s2 tgt
        then Inr \<lparr>shape = tgt, data = broadcast_data s2 tgt (data a)\<rparr>
        else Inl ValueError)"

text \<open>
  One pass of the \<open>for i in range(n_images)\<close> loop: the row written to
  \<open>filtered_images[i]\<close> and the value written to \<open>noises[i]\<close>.
\<close>

definition noise_step ::
  "('a, 's::zero) library \<Rightarrow> Estimator \<Rightarrow> nat \<times> nat \<Rightarrow> bool \<Rightarrow> string \<Rightarrow> bool
     \<Rightarrow> 'a image_list \<Rightarrow> nat list \<Rightarrow> nat \<Rightarrow> py_error + ('a ndarray \<times> 's)" where
  "noise_step lib method wiener_kernel_size convert2ycbcr wavelet_method multichannel
       image_list row_shape i =
     (let img = squeeze (image_at image_list i);
          filtered = (case method of
                        WIENER \<Rightarrow> wiener lib img wiener_kernel_size
                      | WAVELET \<Rightarrow> denoise_wavelet lib img multichannel convert2ycbcr True
                                     wavelet_method);
          array_sum = np_sum lib filtered;
          array_has_nan = np_isnan lib array_sum;
          filtered = (if array_has_nan then img else filtered);
          noise_sigma = (if \<not> array_has_nan then estimate_sigma lib img else 0);
          filtered = expand_dims0 filtered
      in case broadcast_to filtered row_shape of
           Inl e \<Rightarrow> Inl e
         | Inr row \<Rightarrow> Inr (row, noise_sigma))"

text \<open>
  The loop. Row \<open>i\<close> of \<open>filtered_images\<close> and entry \<open>i\<close> of \<open>noises\<close> are written once,
  in the order of \<open>i\<close>, so the two buffers are the lists of the values written.
\<close>

fun noise_loop ::
  "(nat \<Rightarrow> py_error + ('a ndarray \<times> 's)) \<Rightarrow> nat list \<Rightarrow> 'a ndarray list \<times> 's list
     \<Rightarrow> py_error + ('a ndarray list \<times> 's list)" where
  "noise_loop step [] acc = Inr acc"
| "noise_loop step (i # is) (filtered_images, noises) =
     (case step i of
        Inl e \<Rightarrow> Inl e
      | Inr (row, noise_sigma) \<Rightarrow>
          noise_loop step is (filtered_images @ [row], noises @ [noise_sigma]))"

text \<open>
  The sizes \<open>(n_images, c, w, h)\<close>: from the shape of a tensor or array, or from the length
  of a list and the shape of its first element. A missing axis or an empty list raises
  \<open>IndexError\<close>; an argument of another kind fails the assertion.
\<close>

definition batch_dims :: "'a image_list \<Rightarrow> py_error + (nat \<times> nat \<times> nat \<times> nat)" where
  "batch_dims image_list =
     (case image_list of
        Tensor a \<Rightarrow>
          (if length (shape a) < 4 then Inl IndexError
           else Inr (shape a ! 0, shape a ! 1, shape a ! 2, shape a ! 3))
      | PyList xs \<Rightarrow>
          (case xs of
             [] \<Rightarrow> Inl IndexError
           | img # _ \<Rightarrow>
               (if length (shape img) < 3 then Inl IndexError
                else Inr (length xs, shape img ! 0, shape img ! 1, shape img ! 2)))
      | OtherObject \<Rightarrow> Inl (AssertionError ''not a list/tensor/ndarray''))"

definition estimate_noise ::
  "('a, 's::zero) library \<Rightarrow> 'a image_list \<Rightarrow> method_arg \<Rightarrow> nat \<times> nat \<Rightarrow> bool \<Rightarrow> string
     \<Rightarrow> py_error + ('a ndarray list \<times> 's list)" where
  "estimate_noise lib image_list method wiener_kernel_size convert2ycbcr wavelet_method =
     (case method of
        NotMember v \<Rightarrow> Inl (AssertionError unknown_estimator_msg)
      | Member m \<Rightarrow>
          if m = WAVELET \<and> wavelet_method \<notin> set wavelet_options
          then Inl (AssertionError unknown_wavelet_msg)
          else
            (case batch_dims image_list of
               Inl e \<Rightarrow> Inl e
             | Inr (n_images, c, w, h) \<Rightarrow>
                 (let multichannel = (1 < h)
                  in noise_loop
                       (noise_step lib m wiener_kernel_size convert2ycbcr wavelet_method
                          multichannel image_list [c, w, h])
                       [0..<n_images] ([], []))))"

text \<open>
  A stand-in for the library, used to run the model on examples: integer pixels, a
  \<open>wiener\<close> that halves every pixel, a \<open>denoise_wavelet\<close> that returns its input, the sum
  of the pixels for \<open>estimate_sigma\<close> and for \<open>np.sum\<close>, and a negative sum playing NaN.
\<close>

definition sample_library :: "(int, int) library" where
  "sample_library =
     \<lparr>wiener = (\<lambda>a k. a\<lparr>data := map (\<lambda>x. x div 2) (data a)\<rparr>),
      denoise_wavelet = (\<lambda>a mc yc rs m. a),
      estimate_sigma = (\<lambda>a. sum_list (data a)),
      np_sum = (\<lambda>a. sum_list (data a)),
      np_isnan = (\<lambda>x. x < 0)\<rparr>"

text \<open>\<open>noisy - clean\<close>, element by element, for two arrays of one shape.\<close>

definition residual :: "int ndarray \<Rightarrow> int ndarray \<Rightarrow> int ndarray" where
  "residual noisy clean = \<lparr>shape = shape noisy, data = map2 (\<lambda>x y. x - y) (data noisy) (data clean)\<rparr>"

section \<open>Properties of patch extraction\<close>

lemma length_concat_const:
  "(\<And>x. x \<in> set xs \<Longrightarrow> length (f x) = m) \<Longrightarrow> length (concat (map f xs)) = length xs * m"
  by (induction xs) auto

lemma slice_len_window:
  assumes "i < win" "win \<le> h" "0 < step"
  shows "slice_len h i (int h - int win + int i + 1) step = (h - win) div step + 1"
proof -
  have b: "adjust_stop h (int h - int win + int i + 1) = h - win + i + 1"
    using assms by (auto simp: adjust_stop_def)
  have a: "min i h = i" using assms by simp
  show ?thesis using assms by (simp add: slice_len_def a b Let_def)
qed

lemma slice3_shape:
  assumes "0 < step"
  shows "\<exists>p. slice3 img i s1 j s2 step = Inr p
          \<and> shape p = [shape img ! 0, slice_len (shape img ! 1) i s1 step, slice_len (shape img ! 2) j s2 step]
          \<and> length (data p) = shape img ! 0 * (slice_len (shape img ! 1) i s1 step * slice_len (shape img ! 2) j s2 step)"
  using assms by (simp add: slice3_def Let_def length_concat_const)

lemma assign_axis1_shape:
  assumes "shape res = [c, m, n]" "k < m" "shape x = [c, n]"
  shows "\<exists>r. assign_axis1 res k x = Inr r \<and> shape r = [c, m, n] \<and> length (data r) = c * m * n"
  using assms by (simp add: assign_axis1_def Let_def)

lemma inner_loop_shape:
  assumes "shape img = [c, h, w]" "0 < stride" "win \<le> h" "win \<le> w" "i < win"
    and "n = ((h - win) div stride + 1) * ((w - win) div stride + 1)"
  shows "shape res = [c, m, n] \<Longrightarrow> length (data res) = c * m * n \<Longrightarrow> k + length js \<le> m
     \<Longrightarrow> \<forall>j \<in> set js. j < win
     \<Longrightarrow> \<exists>r. inner_loop img win stride n i js (k, res) = Inr (k + length js, r)
           \<and> shape r = [c, m, n] \<and> length (data r) = c * m * n"
proof (induction js arbitrary: k res)
  case Nil
  then show ?case by simp
next
  case (Cons j js)
  have jw: "j < win" using Cons.prems by simp
  obtain p where p: "slice3 img i (int h - int win + int i + 1) j (int w - int win + int j + 1) stride = Inr p"
    and ps: "shape p = [c, (h - win) div stride + 1, (w - win) div stride + 1]"
    and pl: "length (data p) = c * (((h - win) div stride + 1) * ((w - win) div stride + 1))"
    using slice3_shape[OF assms(2), of img i "int h - int win + int i + 1" j "int w - int win + int j + 1"]
      assms slice_len_window[OF assms(5) assms(3) assms(2)] slice_len_window[OF jw assms(4) assms(2)]
    by auto
  have rs: "reshape p [c, n] = Inr (p\<lparr>shape := [c, n]\<rparr>)"
    using pl assms(6) by (simp add: reshape_def)
  obtain r1 where r1: "assign_axis1 res k (p\<lparr>shape := [c, n]\<rparr>) = Inr r1"
    and r1s: "shape r1 = [c, m, n]" and r1l: "length (data r1) = c * m * n"
    using assign_axis1_shape[of res c m n k "p\<lparr>shape := [c, n]\<rparr>"] Cons.prems by auto
  obtain r where r: "inner_loop img win stride n i js (k + 1, r1) = Inr (k + 1 + length js, r)"
    and rsh: "shape r = [c, m, n]" and rl: "length (data r) = c * m * n"
    using Cons.IH[of r1 "k + 1"] r1s r1l Cons.prems by auto
  show ?case using p rs r1 r rsh rl assms(1) by (simp add: Let_def)
qed

lemma outer_loop_shape:
  assumes "shape img = [c, h, w]" "0 < stride" "win \<le> h" "win \<le> w"
    and "n = ((h - win) div stride + 1) * ((w - win) div stride + 1)"
  shows "shape res = [c, m, n] \<Longrightarrow> length (data res) = c * m * n \<Longrightarrow> k + length is * win \<le> m
     \<Longrightarrow> \<forall>i \<in> set is. i < win
     \<Longrightarrow> \<exists>r. outer_loop img win stride n is (k, res) = Inr (k + length is * win, r)
           \<and> shape r = [c, m, n] \<and> length (data r) = c * m * n"
proof (induction "is" arbitrary: k res)
  case Nil
  then show ?case by simp
next
  case (Cons i "is")
  have iw: "i < win" using Cons.prems by simp
  have "k + length [0..<win] \<le> m" using Cons.prems by simp
  then obtain r1 where r1: "inner_loop img win stride n i [0..<win] (k, res) = Inr (k + win, r1)"
    and r1s: "shape r1 = [c, m, n]" and r1l: "length (data r1) = c * m * n"
    using inner_loop_shape[OF assms(1-4) iw assms(5), of res m k "[0..<win]"] Cons.prems by auto
  obtain r where r: "outer_loop img win stride n is (k + win, r1) = Inr (k + win + length is * win, r)"
    and rsh: "shape r = [c, m, n]" and rl: "length (data r) = c * m * n"
    using Cons.IH[of r1 "k + win"] r1s r1l Cons.prems by auto
  show ?case using r1 r rsh rl by (simp add: add.commute add.left_commute)
qed

lemma img_to_patches_result:
  assumes "shape img = [c, h, w]" "0 < win" "win \<le> h" "win \<le> w" "0 < stride"
    and "n = ((h - win) div stride + 1) * ((w - win) div stride + 1)"
  shows "\<exists>p. img_to_patches img win stride = Inr p \<and> shape p = [c, win, win, n]
           \<and> length (data p) = c * (win * win) * n"
proof -
  have s0: "slice_len h 0 (int h - int win + 0 + 1) stride = (h - win) div stride + 1"
    using slice_len_window[of 0 win h stride] assms by simp
  have s1: "slice_len w 0 (int w - int win + 0 + 1) stride = (w - win) div stride + 1"
    using slice_len_window[of 0 win w stride] assms by simp
  obtain p where p: "slice3 img 0 (int h - int win + 0 + 1) 0 (int w - int win + 0 + 1) stride = Inr p"
    and ps: "shape p = [c, (h - win) div stride + 1, (w - win) div stride + 1]"
    using slice3_shape[OF assms(5), of img 0 "int h - int win + 0 + 1" 0 "int w - int win + 0 + 1"]
      assms(1) s0 s1 by auto
  have tot: "shape p ! 1 * shape p ! 2 = n" using ps assms(6) by simp
  have z: "shape (zeros [c, win * win, n] :: 'a ndarray) = [c, win * win, n]"
    "length (data (zeros [c, win * win, n] :: 'a ndarray)) = c * (win * win) * n"
    by (simp_all add: zeros_def)
  obtain r where r: "outer_loop img win stride n [0..<win] (0, zeros [c, win * win, n]) = Inr (0 + length [0..<win] * win, r)"
    and rs: "shape r = [c, win * win, n]" and rl: "length (data r) = c * (win * win) * n"
    using outer_loop_shape[OF assms(1) assms(5) assms(3) assms(4) assms(6), of "zeros [c, win * win, n]" "win * win" 0 "[0..<win]"] z
    by auto
  have rr: "reshape r [c, win, win, n] = Inr (r\<lparr>shape := [c, win, win, n]\<rparr>)"
    using rl by (simp add: reshape_def mult.assoc)
  show ?thesis
    using assms(1) p tot r rr rl by (simp add: img_to_patches_def Let_def)
qed

text \<open>
  C3, as the spec states it, also covers a window of size 0, where it fails: on a
  \<open>1x2x2\<close> image with \<open>win = 0\<close> and stride 1 the first slice \<open>0:3:1\<close> is clamped to the
  two rows and columns there are, so the result has shape \<open>(1, 0, 0, 4)\<close>, while the
  formula \<open>((H - win) // s + 1) * ((W - win) // s + 1)\<close> gives 9.
\<close>

theorem img_to_patches_window0_counterexample:
  "img_to_patches \<lparr>shape = [1, 2, 2], data = [1, 2, 3, 4 :: int]\<rparr> 0 1
     = Inr \<lparr>shape = [1, 0, 0, 4], data = []\<rparr>
   \<and> (0 :: nat) \<le> min 2 2 \<and> (1 :: nat) \<le> 1
   \<and> [1, 0, 0, 4] \<noteq> [1, 0, 0, ((2 - 0) div 1 + 1) * ((2 - 0) div 1 + 1) :: nat]"
  by code_simp

text \<open>
  C3 (amended): for every image of shape \<open>(C, H, W)\<close>, every window with
  \<open>1 \<le> win \<le> min(H, W)\<close> and every stride \<open>s \<ge> 1\<close>, \<open>img_to_patches\<close> returns an array
  of shape \<open>(C, win, win, N)\<close> with \<open>N = ((H - win) // s + 1) * ((W - win) // s + 1)\<close>, holding
  exactly \<open>C * win * win * N\<close> elements, and each of its \<open>N\<close> patches
  \<open>patches[:, :, :, nx]\<close> has shape \<open>(C, win, win)\<close>.
\<close>

theorem img_to_patches_shape:
  assumes "shape img = [c, h, w]" and "1 \<le> win" and "win \<le> min h w" and "1 \<le> stride"
  shows "\<exists>p. img_to_patches img win stride = Inr p
           \<and> shape p = [c, win, win, ((h - win) div stride + 1) * ((w - win) div stride + 1)]
           \<and> wf_array p
           \<and> (\<forall>nx < ((h - win) div stride + 1) * ((w - win) div stride + 1).
                 shape (patch_at p nx) = [c, win, win] \<and> wf_array (patch_at p nx))"
proof -
  define n where "n = ((h - win) div stride + 1) * ((w - win) div stride + 1)"
  obtain p where p: "img_to_patches img win stride = Inr p"
    and ps: "shape p = [c, win, win, n]"
    and pl: "length (data p) = c * (win * win) * n"
    using img_to_patches_result[of img c h w win stride n] assms n_def by auto
  have "wf_array p" using ps pl by (simp add: wf_array_def mult.assoc)
  moreover have "shape (patch_at p nx) = [c, win, win] \<and> wf_array (patch_at p nx)" for nx
    using ps by (simp add: patch_at_def wf_array_def Let_def mult.assoc)
  ultimately show ?thesis using p ps unfolding n_def by simp
qed

theorem img_to_patches_shape_witness:
  "shape \<lparr>shape = [1, 3, 3], data = [1, 2, 3, 4, 5, 6, 7, 8, 9 :: int]\<rparr> = [1, 3, 3]
   \<and> (1 :: nat) \<le> 2 \<and> (2 :: nat) \<le> min 3 3 \<and> (1 :: nat) \<le> 1
   \<and> (\<exists>p. img_to_patches \<lparr>shape = [1, 3, 3], data = [1, 2, 3, 4, 5, 6, 7, 8, 9 :: int]\<rparr> 2 1 = Inr p
          \<and> shape p = [1, 2, 2, 4] \<and> wf_array p
          \<and> shape (patch_at p 3) = [1, 2, 2])"
  using img_to_patches_shape[of "\<lparr>shape = [1, 3, 3], data = [1, 2, 3, 4, 5, 6, 7, 8, 9 :: int]\<rparr>" 1 3 3 2 1]
  by auto

section \<open>Properties of the random-access dataset\<close>

lemma mset_shuffle_with:
  assumes "mset perm = mset [0..<length xs]"
  shows "mset (shuffle_with perm xs) = mset xs"
proof -
  have "mset (map (\<lambda>k. xs ! k) perm) = image_mset (\<lambda>k. xs ! k) (mset perm)" by simp
  also have "\<dots> = image_mset (\<lambda>k. xs ! k) (mset [0..<length xs])" using assms by simp
  also have "\<dots> = mset (map (\<lambda>k. xs ! k) [0..<length xs])" by simp
  also have "\<dots> = mset xs" by (simp add: map_nth)
  finally show ?thesis by (simp add: shuffle_with_def)
qed

lemma keys_Dataset_init:
  assumes "shuffle \<longrightarrow> mset perm = mset [0..<length store]"
  shows "mset (keys (Dataset_init store shuffle perm)) = mset (map fst store)"
  using assms mset_shuffle_with[of perm "map fst store"] by (simp add: Dataset_init_def)

lemma Dataset_len_init:
  assumes "shuffle \<longrightarrow> mset perm = mset [0..<length store]"
  shows "Dataset_len (Dataset_init store shuffle perm) = length store"
  using mset_eq_length[OF keys_Dataset_init[OF assms]] by (simp add: Dataset_len_def)

lemma h5_getitem_present:
  assumes "key \<in> set (map fst h5f)"
  shows "\<exists>d. (key, d) \<in> set h5f \<and> h5_getitem h5f key = Inr d"
proof -
  from assms obtain d where "map_of h5f key = Some d"
    by (metis domD dom_map_of_conv_image_fst list.set_map)
  then show ?thesis by (auto simp: h5_getitem_def dest: map_of_SomeD)
qed

lemma getitem_all_indices:
  "map (\<lambda>i. Dataset_getitem self (int i)) [0..<Dataset_len self]
     = map (h5_getitem (dbf self)) (keys self)"
  by (rule nth_equalityI) (simp_all add: Dataset_len_def Dataset_getitem_def list_getitem_def)

text \<open>
  C8, as the spec states it, fails for the indices from \<open>-N\<close> to \<open>-1\<close>: they are outside
  \<open>[0, N)\<close>, and Python's list indexing answers them from the end of the key list instead of
  raising. On a store with the one entry \<open>'0'\<close>, index \<open>-1\<close> returns that entry.
\<close>

theorem Dataset_getitem_negative_counterexample:
  "Dataset_len (Dataset_init [(''0'', \<lparr>shape = [1], data = [7 :: int]\<rparr>)] False []) = 1
   \<and> \<not> (0 \<le> (- 1 :: int) \<and> (- 1 :: int) < 1)
   \<and> Dataset_getitem (Dataset_init [(''0'', \<lparr>shape = [1], data = [7 :: int]\<rparr>)] False []) (- 1)
       = Inr \<lparr>shape = [1], data = [7]\<rparr>"
  by (simp add: Dataset_len_def Dataset_init_def Dataset_getitem_def list_getitem_def h5_getitem_def)

text \<open>
  C8 (amended): for every open handle with \<open>N\<close> entries, \<open>__getitem__\<close> fails with
  \<open>IndexError\<close> for every index below \<open>-N\<close> or at least \<open>N\<close>; for every index in \<open>[0, N)\<close> it
  returns the entry the store holds under the key at that position of the handle's key list;
  and for every index in \<open>[-N, 0)\<close> it returns what it returns for \<open>index + N\<close>.
\<close>

theorem Dataset_getitem_index:
  assumes "shuffle \<longrightarrow> mset perm = mset [0..<length store]"
    and "self = Dataset_init store shuffle perm"
    and "n = int (Dataset_len self)"
  shows "(index < - n \<or> n \<le> index \<longrightarrow> Dataset_getitem self index = Inl IndexError)
       \<and> (0 \<le> index \<and> index < n \<longrightarrow>
            (\<exists>d. (keys self ! nat index, d) \<in> set store \<and> Dataset_getitem self index = Inr d))
       \<and> (- n \<le> index \<and> index < 0 \<longrightarrow>
            Dataset_getitem self index = Dataset_getitem self (index + n))"
proof (intro conjI impI)
  assume "index < - n \<or> n \<le> index"
  then show "Dataset_getitem self index = Inl IndexError"
    using assms(3) by (auto simp: Dataset_getitem_def list_getitem_def Dataset_len_def)
next
  assume a: "0 \<le> index \<and> index < n"
  then have i: "nat index < length (keys self)"
    using assms(3) by (simp add: Dataset_len_def nat_less_iff)
  have "set (keys self) = set (map fst store)"
    using keys_Dataset_init[OF assms(1)] assms(2) by (metis set_mset_mset)
  then have "keys self ! nat index \<in> set (map fst store)" using i nth_mem by blast
  then obtain d where "(keys self ! nat index, d) \<in> set store"
    and "h5_getitem store (keys self ! nat index) = Inr d"
    using h5_getitem_present by blast
  moreover have "dbf self = store" using assms(2) by (simp add: Dataset_init_def)
  ultimately show "\<exists>d. (keys self ! nat index, d) \<in> set store \<and> Dataset_getitem self index = Inr d"
    using a assms(3) by (auto simp: Dataset_getitem_def list_getitem_def Dataset_len_def)
next
  assume "- n \<le> index \<and> index < 0"
  then show "Dataset_getitem self index = Dataset_getitem self (index + n)"
    using assms(3) by (auto simp: Dataset_getitem_def list_getitem_def Dataset_len_def)
qed

theorem Dataset_getitem_index_witness:
  "Dataset_getitem (Dataset_init [(''0'', \<lparr>shape = [1], data = [7 :: int]\<rparr>),
                                  (''1'', \<lparr>shape = [1], data = [8]\<rparr>)] True [1, 0]) 2 = Inl IndexError
   \<and> Dataset_getitem (Dataset_init [(''0'', \<lparr>shape = [1], data = [7 :: int]\<rparr>),
                                  (''1'', \<lparr>shape = [1], data = [8]\<rparr>)] True [1, 0]) 0
       = Inr \<lparr>shape = [1], data = [8]\<rparr>"
proof -
  let ?store = "[(''0'', \<lparr>shape = [1], data = [7 :: int]\<rparr>), (''1'', \<lparr>shape = [1], data = [8]\<rparr>)]"
  let ?self = "Dataset_init ?store True [1, 0]"
  have p: "True \<longrightarrow> mset [1, 0 :: nat] = mset [0..<length ?store]" by (simp add: upt_rec)
  have n: "(2 :: int) = int (Dataset_len ?self)"
    by (simp add: Dataset_len_def Dataset_init_def shuffle_with_def)
  have "Dataset_getitem ?self 2 = Inl IndexError"
    using Dataset_getitem_index[OF p refl n, of 2] by simp
  moreover have "Dataset_getitem ?self 0 = Inr \<lparr>shape = [1], data = [8]\<rparr>"
    by (simp add: Dataset_init_def Dataset_getitem_def list_getitem_def h5_getitem_def shuffle_with_def)
  ultimately show ?thesis by simp
qed

text \<open>
  C9: \<open>len\<close> of a handle opened with \<open>shuffle=False\<close> is the number of stored entries, and
  the values \<open>__getitem__\<close> returns over the indices \<open>0 .. N-1\<close> of a handle opened with
  \<open>shuffle=True\<close> are, as a multiset, those returned by a handle opened without shuffling.
\<close>

theorem Dataset_shuffle_same_multiset:
  assumes "mset perm = mset [0..<length store]"
  shows "Dataset_len (Dataset_init store False perm') = length store
       \<and> mset (map (\<lambda>i. Dataset_getitem (Dataset_init store True perm) (int i))
                 [0..<Dataset_len (Dataset_init store True perm)])
         = mset (map (\<lambda>i. Dataset_getitem (Dataset_init store False perm') (int i))
                 [0..<Dataset_len (Dataset_init store False perm')])"
proof -
  have k: "mset (keys (Dataset_init store True perm)) = mset (keys (Dataset_init store False perm'))"
    using keys_Dataset_init[of True perm store] keys_Dataset_init[of False perm' store] assms by simp
  have d: "dbf (Dataset_init store True perm) = dbf (Dataset_init store False perm')"
    by (simp add: Dataset_init_def)
  have "mset (map (h5_getitem (dbf (Dataset_init store True perm))) (keys (Dataset_init store True perm)))
      = mset (map (h5_getitem (dbf (Dataset_init store False perm'))) (keys (Dataset_init store False perm')))"
    using k d by (metis mset_map)
  then have g: "mset (map (\<lambda>i. Dataset_getitem (Dataset_init store True perm) (int i))
                 [0..<Dataset_len (Dataset_init store True perm)])
         = mset (map (\<lambda>i. Dataset_getitem (Dataset_init store False perm') (int i))
                 [0..<Dataset_len (Dataset_init store False perm')])"
    by (simp only: getitem_all_indices)
  have l: "Dataset_len (Dataset_init store False perm') = length store"
    using Dataset_len_init[of False perm' store] by simp
  show ?thesis using l g by (rule conjI)
qed

theorem Dataset_shuffle_same_multiset_witness:
  "mset [1, 0 :: nat] = mset [0..<length [(''0'', \<lparr>shape = [1], data = [7 :: int]\<rparr>),
                                           (''1'', \<lparr>shape = [1], data = [8]\<rparr>)]]
   \<and> Dataset_len (Dataset_init [(''0'', \<lparr>shape = [1], data = [7 :: int]\<rparr>),
                                (''1'', \<lparr>shape = [1], data = [8]\<rparr>)] False [])
       = length [(''0'', \<lparr>shape = [1], data = [7 :: int]\<rparr>), (''1'', \<lparr>shape = [1], data = [8]\<rparr>)]
   \<and> mset (map (\<lambda>i. Dataset_getitem (Dataset_init [(''0'', \<lparr>shape = [1], data = [7 :: int]\<rparr>),
                                (''1'', \<lparr>shape = [1], data = [8]\<rparr>)] True [1, 0]) (int i))
             [0..<Dataset_len (Dataset_init [(''0'', \<lparr>shape = [1], data = [7 :: int]\<rparr>),
                                (''1'', \<lparr>shape = [1], data = [8]\<rparr>)] True [1, 0])])
     = mset (map (\<lambda>i. Dataset_getitem (Dataset_init [(''0'', \<lparr>shape = [1], data = [7 :: int]\<rparr>),
                                (''1'', \<lparr>shape = [1], data = [8]\<rparr>)] False []) (int i))
             [0..<Dataset_len (Dataset_init [(''0'', \<lparr>shape = [1], data = [7 :: int]\<rparr>),
                                (''1'', \<lparr>shape = [1], data = [8]\<rparr>)] False [])])"
proof -
  let ?store = "[(''0'', \<lparr>shape = [1], data = [7 :: int]\<rparr>), (''1'', \<lparr>shape = [1], data = [8]\<rparr>)]"
  have p: "mset [1, 0 :: nat] = mset [0..<length ?store]" by (simp add: upt_rec)
  show ?thesis by (rule conjI[OF p Dataset_shuffle_same_multiset[OF p, of "[]"]])
qed

section \<open>Properties of noise estimation\<close>

lemma unknown_estimator_msg_text:
  "unknown_estimator_msg
     = ''Unknown noise estimator, please specify one of those listed in ['WIENER', 'WAVELET']''"
  by code_simp

lemma unknown_wavelet_msg_text:
  "unknown_wavelet_msg
     = ''Unknown wavelet method, please specify one of those listed in ['BayesShrink', 'VisuShrink']''"
  by code_simp

text \<open>
  C7, as the spec states it, promises a message that names the invalid value. The two
  messages are fixed texts that list the allowed names only: for the method \<open>'median'\<close> and
  for the wavelet method \<open>'Haar'\<close> the call fails with a message in which the rejected
  value does not occur.
\<close>

theorem estimate_noise_message_counterexample:
  "estimate_noise sample_library (Tensor \<lparr>shape = [1, 1, 2, 2], data = [4, 8, 12, 16]\<rparr>)
       (NotMember ''median'') (5, 5) False ''BayesShrink''
     = Inl (AssertionError unknown_estimator_msg)
   \<and> \<not> sublist ''median'' unknown_estimator_msg
   \<and> estimate_noise sample_library (Tensor \<lparr>shape = [1, 1, 2, 2], data = [4, 8, 12, 16]\<rparr>)
       (Member WAVELET) (5, 5) False ''Haar''
     = Inl (AssertionError unknown_wavelet_msg)
   \<and> \<not> sublist ''Haar'' unknown_wavelet_msg"
proof -
  have "\<not> sublist ''median'' unknown_estimator_msg" by code_simp
  moreover have "\<not> sublist ''Haar'' unknown_wavelet_msg" by code_simp
  ultimately show ?thesis by (simp add: estimate_noise_def wavelet_options_def)
qed

text \<open>
  C7 (amended): for every call of \<open>estimate_noise\<close> with a method that is not a member of
  \<open>Estimator\<close>, and for every call with the wavelet estimator and a wavelet method outside
  \<open>['BayesShrink', 'VisuShrink']\<close>, the call fails with an \<open>AssertionError\<close> whatever the
  images and the library functions are, so before any filtering and with no output; the
  message is a fixed text that names the allowed set (and not the rejected value).
\<close>

theorem estimate_noise_rejects_configuration:
  "estimate_noise lib image_list (NotMember v) wiener_kernel_size convert2ycbcr wavelet_method
     = Inl (AssertionError
         ''Unknown noise estimator, please specify one of those listed in ['WIENER', 'WAVELET']'')
   \<and> (wavelet_method \<notin> set wavelet_options \<longrightarrow>
        estimate_noise lib image_list (Member WAVELET) wiener_kernel_size convert2ycbcr wavelet_method
          = Inl (AssertionError
              ''Unknown wavelet method, please specify one of those listed in ['BayesShrink', 'VisuShrink']''))"
  by (simp add: estimate_noise_def unknown_estimator_msg_text unknown_wavelet_msg_text)

theorem estimate_noise_rejects_configuration_witness:
  "''Haar'' \<notin> set wavelet_options
   \<and> estimate_noise sample_library (PyList []) (Member WAVELET) (5, 5) False ''Haar''
       = Inl (AssertionError
           ''Unknown wavelet method, please specify one of those listed in ['BayesShrink', 'VisuShrink']'')"
proof -
  have h: "''Haar'' \<notin> set wavelet_options" by (simp add: wavelet_options_def)
  show ?thesis
    using h estimate_noise_rejects_configuration
      [where wavelet_method = "''Haar''" and lib = sample_library and image_list = "PyList []"
         and wiener_kernel_size = "(5, 5)" and convert2ycbcr = False]
    by blast
qed

end
